theory Spec2Isabelle
  imports Complex_Main "HOL-Library.Multiset"
begin

section \<open>The values the external services hand to the notebook's code\<close>

text \<open>
  The notebook's classes are thin wrappers around three external services: the NewsAPI
  client, the Hugging Face sentiment pipeline and the Alpaca REST client. What they
  return is untyped JSON-like Python data, so the model keeps it untyped: every
  subscript, negation and comparison of the source is an operation that may raise.

  A Python float is modelled by the real number it denotes. The source only negates a
  score and compares it with the literals \<open>0.5\<close> and \<open>-0.5\<close>; both operations are
  exact on finite floats. NaN and the infinities are outside the model.
\<close>

datatype pyval =
    PyNone
  | PyFloat real
  | PyStr string
  | PyList "pyval list"
  | PyDict "(string \<times> pyval) list"

text \<open>
  The exceptions of the strategy's code path. All of them are subclasses of Python's
  \<open>Exception\<close>. \<open>NewsAPIException\<close> stands for whatever the NewsAPI client raises
  (HTTP errors, time-outs), \<open>PipelineError\<close> for what the sentiment pipeline raises on
  an input it cannot tokenize.
\<close>

datatype exn =
    IndexError
  | KeyError
  | TypeError
  | NewsAPIException string
  | PipelineError string

text \<open>Sequencing of statements that may raise: the first exception aborts the rest.\<close>

definition and_then :: "exn + 'a \<Rightarrow> ('a \<Rightarrow> exn + 'b) \<Rightarrow> exn + 'b" where
  "and_then r f = (case r of Inl e \<Rightarrow> Inl e | Inr v \<Rightarrow> f v)"

text \<open>\<open>v[0]\<close>: the only integer subscript of the source.\<close>

fun subscript0 :: "pyval \<Rightarrow> exn + pyval" where
  "subscript0 (PyList []) = Inl IndexError"
| "subscript0 (PyList (x # xs)) = Inr x"
| "subscript0 (PyStr []) = Inl IndexError"
| "subscript0 (PyStr (c # cs)) = Inr (PyStr [c])"
| "subscript0 (PyDict d) = Inl KeyError"
| "subscript0 PyNone = Inl TypeError"
| "subscript0 (PyFloat r) = Inl TypeError"

text \<open>\<open>v['key']\<close>: a dictionary lookup; every other value refuses a string subscript.\<close>

fun subscript_key :: "pyval \<Rightarrow> string \<Rightarrow> exn + pyval" where
  "subscript_key (PyDict d) k = (case map_of d k of None \<Rightarrow> Inl KeyError | Some v \<Rightarrow> Inr v)"
| "subscript_key v k = Inl TypeError"

text \<open>Truth value of an object in \<open>if articles:\<close>.\<close>

fun truthy :: "pyval \<Rightarrow> bool" where
  "truthy PyNone = False"
| "truthy (PyFloat r) = (r \<noteq> 0)"
| "truthy (PyStr s) = (s \<noteq> [])"
| "truthy (PyList xs) = (xs \<noteq> [])"
| "truthy (PyDict d) = (d \<noteq> [])"

text \<open>Unary minus and the two comparisons against a float literal.\<close>

fun py_neg :: "pyval \<Rightarrow> exn + pyval" where
  "py_neg (PyFloat r) = Inr (PyFloat (- r))"
| "py_neg v = Inl TypeError"

fun py_gt :: "pyval \<Rightarrow> real \<Rightarrow> exn + bool" where
  "py_gt (PyFloat r) c = Inr (r > c)"
| "py_gt v c = Inl TypeError"

fun py_lt :: "pyval \<Rightarrow> real \<Rightarrow> exn + bool" where
  "py_lt (PyFloat r) c = Inr (r < c)"
| "py_lt v c = Inl TypeError"

section \<open>News fetching and sentiment analysis\<close>

text \<open>
  \<open>NewsFetcher.fetch_news\<close> calls the client's \<open>get_everything\<close> with the query, the
  two defaults and the fixed sort order, and returns the \<open>articles\<close> entry of the answer.
  The client is a parameter: what it answers at the moment of the call.
\<close>

record news_request =
  q :: string
  sources :: string
  language :: string
  sort_by :: string

type_synonym newsapi = "news_request \<Rightarrow> exn + pyval"

definition fetch_news :: "newsapi \<Rightarrow> string \<Rightarrow> exn + pyval" where
  "fetch_news get_everything query =
     and_then
       (get_everything \<lparr>q = query, sources = ''reuters,bloomberg'', language = ''en'',
                        sort_by = ''publishedAt''\<rparr>)
       (\<lambda>all_articles. subscript_key all_articles ''articles'')"

text \<open>
  \<open>SentimentAnalyzer.analyze_sentiment\<close> returns what the pipeline returns, untouched.
  The pipeline is a parameter as well.
\<close>

type_synonym sentiment_pipeline = "pyval \<Rightarrow> exn + pyval"

definition analyze_sentiment :: "sentiment_pipeline \<Rightarrow> pyval \<Rightarrow> exn + pyval" where
  "analyze_sentiment pipeline text = pipeline text"

section \<open>The backtesting strategy\<close>

text \<open>
  \<open>self.buy()\<close> and \<open>self.sell()\<close> belong to backtrader; each issues one market order.
  The model records them in the order in which they are issued.
\<close>

datatype signal = Buy | Sell

text \<open>
  The conditional expression of \<open>SentimentStrategy.next\<close>:
  \<^verbatim>\<open>sentiment[0]['score'] if sentiment[0]['label'] == 'positive' else -sentiment[0]['score']\<close>
  Python evaluates the condition first, then exactly one of the two branches.
\<close>

definition sentiment_score :: "pyval \<Rightarrow> exn + pyval" where
  "sentiment_score sentiment =
     and_then (subscript0 sentiment) (\<lambda>s0.
     and_then (subscript_key s0 ''label'') (\<lambda>label.
       if label = PyStr ''positive''
       then and_then (subscript0 sentiment) (\<lambda>s1. subscript_key s1 ''score'')
       else and_then (subscript0 sentiment) (\<lambda>s1.
            and_then (subscript_key s1 ''score'') py_neg)))"

text \<open>
  \<open>SentimentStrategy.next\<close>. The state is the list of orders issued so far; an exception
  leaves it as it was, since \<open>buy\<close> and \<open>sell\<close> are the last statements.
\<close>

definition strategy_next ::
  "sentiment_pipeline \<Rightarrow> newsapi \<Rightarrow> signal list \<Rightarrow> exn + signal list" where
  "strategy_next pipeline get_everything orders =
     and_then (fetch_news get_everything ''Brent Oil'') (\<lambda>articles.
       if truthy articles then
         and_then (subscript0 articles) (\<lambda>a0.
         and_then (subscript_key a0 ''title'') (\<lambda>title.
         and_then (analyze_sentiment pipeline title) (\<lambda>sentiment.
         and_then (sentiment_score sentiment) (\<lambda>score.
         and_then (py_gt score 0.5) (\<lambda>above.
           if above then Inr (orders @ [Buy])
           else and_then (py_lt score (- 0.5)) (\<lambda>below.
             if below then Inr (orders @ [Sell]) else Inr orders))))))
       else Inr orders)"

text \<open>
  \<open>run_backtest\<close> hands the data feed and the strategy to backtrader's \<open>Cerebro\<close>, which
  calls \<open>next\<close> once for every bar of the feed, in order. The strategy has no indicator,
  so no bar is skipped for a warm-up period. \<open>feed i\<close> is the NewsAPI client as it
  answers while bar number \<open>i\<close> is processed. An exception raised by \<open>next\<close> ends the
  run; the orders issued before it stay issued.
\<close>

record bar =
  bar_timestamp :: nat
  bar_open :: real
  bar_high :: real
  bar_low :: real
  bar_close :: real
  bar_volume :: real

fun cerebro_run ::
  "sentiment_pipeline \<Rightarrow> (nat \<Rightarrow> newsapi) \<Rightarrow> nat \<Rightarrow> bar list \<Rightarrow> signal list
    \<Rightarrow> signal list \<times> exn option" where
  "cerebro_run pipeline feed i [] orders = (orders, None)"
| "cerebro_run pipeline feed i (b # bs) orders =
     (case strategy_next pipeline (feed i) orders of
        Inl e \<Rightarrow> (orders, Some e)
      | Inr orders' \<Rightarrow> cerebro_run pipeline feed (Suc i) bs orders')"

definition run_backtest ::
  "bar list \<Rightarrow> sentiment_pipeline \<Rightarrow> (nat \<Rightarrow> newsapi) \<Rightarrow> signal list \<times> exn option" where
  "run_backtest data pipeline feed = cerebro_run pipeline feed 0 data []"

section \<open>Trade execution\<close>

text \<open>
  \<open>TradeExecutor.place_order\<close> forwards its five arguments to the REST client's
  \<open>submit_order\<close>. It passes no \<open>client_order_id\<close>; the request the broker sees
  carries none.
\<close>

record order_request =
  symbol :: string
  qty :: int
  side :: string
  order_type :: string
  time_in_force :: string
  client_order_id :: "string option"

text \<open>
  What the REST client raises of its own: a rejection by the broker (\<open>APIError\<close>, for
  instance an unknown symbol or insufficient buying power) or a failure of the
  transport. All are subclasses of \<open>Exception\<close>. \<open>str\<close> is the text \<open>print\<close> shows
  for the exception.
\<close>

datatype broker_exn = APIError string | Timeout string | ConnectionError string

fun str :: "broker_exn \<Rightarrow> string" where
  "str (APIError m) = m"
| "str (Timeout m) = m"
| "str (ConnectionError m) = m"

text \<open>
  What a call of the REST client can end with instead of an answer. Python's handler
  \<open>except Exception\<close> catches the subclasses of \<open>Exception\<close> and nothing else: an
  interrupt from the keyboard or an interpreter exit that arrives while the call waits
  for the broker is a \<open>BaseException\<close> outside \<open>Exception\<close>.
\<close>

datatype raised = Exception broker_exn | KeyboardInterrupt | SystemExit

text \<open>
  The broker is a parameter: \<open>submit_order\<close> answers a request in a broker state \<open>'b\<close>
  with an order object \<open>'o\<close> or an exception, and leaves a new broker state (a request
  whose answer is lost may still have been accepted).

  The executor's world is the broker's state, the console, and the list of calls made
  to the REST client. The client also offers a status query by \<open>client_order_id\<close> and
  a cancel; the list of calls shows which of the three a piece of code has used.
\<close>

datatype api_call =
    SubmitOrder order_request
  | GetOrderByClientOrderId string
  | CancelOrder string

record 'b world =
  broker :: 'b
  calls :: "api_call list"
  stdout :: "string list"

type_synonym ('b, 'o) rest = "order_request \<Rightarrow> 'b \<Rightarrow> (raised + 'o) \<times> 'b"

definition submit_order ::
  "('b, 'o) rest \<Rightarrow> order_request \<Rightarrow> 'b world \<Rightarrow> (raised + 'o) \<times> 'b world" where
  "submit_order api req w =
     (case api req (broker w) of
        (r, b') \<Rightarrow> (r, w\<lparr>broker := b', calls := calls w @ [SubmitOrder req]\<rparr>))"

text \<open>
  \<open>place_order\<close>: the \<open>try\<close> block returns the order; the handler catches a subclass
  of \<open>Exception\<close>, prints it and returns \<open>None\<close>. Anything else the call raises is
  not caught and leaves \<open>place_order\<close> (\<open>Inl\<close>), with nothing printed.
\<close>

definition place_order ::
  "('b, 'o) rest \<Rightarrow> string \<Rightarrow> int \<Rightarrow> string \<Rightarrow> string \<Rightarrow> string \<Rightarrow> 'b world
    \<Rightarrow> (raised + 'o option) \<times> 'b world" where
  "place_order api sy n sd ty tif w =
     (case submit_order api
             \<lparr>symbol = sy, qty = n, side = sd, order_type = ty,
              time_in_force = tif, client_order_id = None\<rparr> w of
        (Inr order, w') \<Rightarrow> (Inr (Some order), w')
      | (Inl r, w') \<Rightarrow>
          (case r of
             Exception e \<Rightarrow>
               (Inr None, w'\<lparr>stdout := stdout w' @ [''Error placing order: '' @ str e]\<rparr>)
           | KeyboardInterrupt \<Rightarrow> (Inl r, w')
           | SystemExit \<Rightarrow> (Inl r, w')))"

section \<open>Collaborators for concrete runs\<close>

text \<open>
  Small stand-ins for the three services, used to run the code above on explicit inputs.
  \<open>classification\<close> is the shape of one entry of the pipeline's answer.
\<close>

definition classification :: "string \<Rightarrow> real \<Rightarrow> pyval" where
  "classification l s = PyDict [(''label'', PyStr l), (''score'', PyFloat s)]"

fun finbert_stub :: sentiment_pipeline where
  "finbert_stub (PyStr t) =
     Inr (PyList [classification
       (if t = ''Oil surges'' then ''positive''
        else if t = ''Oil plunges'' then ''negative'' else ''neutral'') 0.9])"
| "finbert_stub v = Inl (PipelineError ''text input must be of type str'')"

definition headline :: "string \<Rightarrow> newsapi" where
  "headline t = (\<lambda>req. Inr (PyDict [(''status'', PyStr ''ok''),
     (''articles'', PyList [PyDict [(''title'', PyStr t)]])]))"

definition bullish_feed :: "nat \<Rightarrow> newsapi" where
  "bullish_feed i = headline ''Oil surges''"

definition bearish_feed :: "nat \<Rightarrow> newsapi" where
  "bearish_feed i = headline ''Oil plunges''"

definition neutral_feed :: "nat \<Rightarrow> newsapi" where
  "neutral_feed i = headline ''OPEC meets''"

definition oscillating_feed :: "nat \<Rightarrow> newsapi" where
  "oscillating_feed i = (if even i then headline ''Oil surges'' else headline ''Oil plunges'')"

definition bar_at :: "nat \<Rightarrow> real \<Rightarrow> bar" where
  "bar_at t price = \<lparr>bar_timestamp = t, bar_open = price, bar_high = price, bar_low = price,
     bar_close = price, bar_volume = 1000\<rparr>"

definition falling_bars :: "bar list" where
  "falling_bars = [bar_at 1 80, bar_at 2 70]"

definition flat_bars :: "nat \<Rightarrow> bar list" where
  "flat_bars k = map (\<lambda>t. bar_at t 80) [1 ..< Suc k]"

text \<open>
  A paper broker whose state is the list of live orders. It refuses a request whose
  \<open>client_order_id\<close> is already in use and accepts every other one as a new order.
  \<open>lossy_broker\<close> accepts the order and then loses the answer (the caller sees a
  time-out); \<open>rejecting_broker\<close> refuses everything; the call to
  \<open>interrupted_broker\<close> is interrupted from the keyboard before the request is sent.
\<close>

record live_order =
  order_id :: nat
  request :: order_request

definition paper_broker :: "(live_order list, live_order) rest" where
  "paper_broker req live =
     (if client_order_id req \<noteq> None
         \<and> client_order_id req \<in> set (map (\<lambda>ord. client_order_id (request ord)) live)
      then (Inl (Exception (APIError ''client_order_id must be unique'')), live)
      else (Inr \<lparr>order_id = length live, request = req\<rparr>,
            live @ [\<lparr>order_id = length live, request = req\<rparr>]))"

definition lossy_broker :: "(live_order list, live_order) rest" where
  "lossy_broker req live =
     (Inl (Exception (Timeout ''Read timed out'')),
      live @ [\<lparr>order_id = length live, request = req\<rparr>])"

definition rejecting_broker :: "(live_order list, live_order) rest" where
  "rejecting_broker req live = (Inl (Exception (APIError ''insufficient buying power'')), live)"

definition interrupted_broker :: "(live_order list, live_order) rest" where
  "interrupted_broker req live = (Inl KeyboardInterrupt, live)"

definition fresh_world :: "live_order list world" where
  "fresh_world = \<lparr>broker = [], calls = [], stdout = []\<rparr>"

text \<open>What a scoring function in the sense of the specification would return.\<close>

fun score_in_unit_interval :: "exn + pyval \<Rightarrow> bool" where
  "score_in_unit_interval (Inr (PyFloat x)) = (- 1 \<le> x \<and> x \<le> 1)"
| "score_in_unit_interval r = False"

section \<open>Event Stream Merger\<close>

text \<open>
  Modelled from the spec: the Event Stream Merger (section 4.1). The notebook has no
  code that merges bars and news: \<open>main\<close> fetches both and stops at a comment. The
  specification gives the contract only: N producer sequences, each of market bars or
  of news events and each with non-decreasing timestamps, become one sequence with
  non-decreasing timestamps, a bar going before a news event of the same timestamp.
  The model is the merge that only ever looks at the next event of each producer.
  Timestamps are natural numbers; back-pressure, time-outs and the persisted watermark
  are not modelled.
\<close>

record market_bar =
  mb_symbol :: string
  mb_timestamp :: nat
  mb_open :: real
  mb_high :: real
  mb_low :: real
  mb_close :: real
  mb_volume :: real

record news_event =
  ne_source :: string
  ne_timestamp :: nat
  ne_raw_text :: string
  ne_sentiment_score :: "real option"

datatype event = MarketBar market_bar | NewsEvent news_event

fun timestamp :: "event \<Rightarrow> nat" where
  "timestamp (MarketBar b) = mb_timestamp b"
| "timestamp (NewsEvent n) = ne_timestamp n"

fun is_bar :: "event \<Rightarrow> bool" where
  "is_bar (MarketBar b) = True"
| "is_bar (NewsEvent n) = False"

datatype producer = BarProducer "market_bar list" | NewsProducer "news_event list"

fun produced :: "producer \<Rightarrow> event list" where
  "produced (BarProducer bs) = map MarketBar bs"
| "produced (NewsProducer ns) = map NewsEvent ns"

text \<open>\<open>goes_first a b\<close>: \<open>a\<close> may be emitted before \<open>b\<close>.\<close>

definition goes_first :: "event \<Rightarrow> event \<Rightarrow> bool" where
  "goes_first a b =
     (timestamp a < timestamp b \<or> (timestamp a = timestamp b \<and> (is_bar a \<or> \<not> is_bar b)))"

text \<open>
  Modelled from the spec: the merge of two streams. The notebook has no merger. The
  next event emitted is the head that goes first; on a full tie the first stream's.
\<close>

fun merge2 :: "event list \<Rightarrow> event list \<Rightarrow> event list" where
  "merge2 [] ys = ys"
| "merge2 xs [] = xs"
| "merge2 (x # xs) (y # ys) =
     (if goes_first x y then x # merge2 xs (y # ys) else y # merge2 (x # xs) ys)"

text \<open>
  Modelled from the spec: the Event Stream Merger over N producers, absent from the
  notebook. It accepts the producers in the order given and merges them all.
\<close>

definition event_stream_merger :: "producer list \<Rightarrow> event list" where
  "event_stream_merger ps = foldr (\<lambda>p merged. merge2 (produced p) merged) ps []"

text \<open>Two small producers for concrete runs of the merger.\<close>

definition sample_bar :: "nat \<Rightarrow> market_bar" where
  "sample_bar t = \<lparr>mb_symbol = ''X'', mb_timestamp = t, mb_open = 80, mb_high = 80, mb_low = 80,
     mb_close = 80, mb_volume = 1000\<rparr>"

definition sample_news :: "nat \<Rightarrow> news_event" where
  "sample_news t = \<lparr>ne_source = ''reuters'', ne_timestamp = t, ne_raw_text = ''Oil surges'',
     ne_sentiment_score = None\<rparr>"

definition sample_producers :: "producer list" where
  "sample_producers =
     [NewsProducer [sample_news 2, sample_news 3], BarProducer [sample_bar 1, sample_bar 2]]"

section \<open>Position ledger\<close>

text \<open>
  Modelled from the spec: the Position ledger of the Order Lifecycle Manager (sections 3
  and 4.4). The notebook keeps no position and receives no fills. The specification
  says: a Position is updated only from fills; the Position update and the OrderState
  transition of a fill are applied as one unit; after a crash between a fill and its
  unit, the restart re-queries the broker's fill history before the event stream
  resumes. The model keeps the broker's fill history, the number of its fills whose
  unit has been applied, and the net quantity per symbol. Recovery applies the units
  of the fills not yet applied. Order states and the average entry price, whose update
  rule the specification does not give, are left out.
\<close>

datatype order_side = BUY | SELL

record fill =
  fill_client_order_id :: string
  fill_symbol :: string
  fill_side :: order_side
  fill_quantity :: nat

definition signed_quantity :: "fill \<Rightarrow> int" where
  "signed_quantity f = (case fill_side f of BUY \<Rightarrow> int (fill_quantity f)
                                         | SELL \<Rightarrow> - int (fill_quantity f))"

record ledger =
  fill_history :: "fill list"
  applied :: nat
  net_quantity :: "string \<Rightarrow> int"

definition empty_ledger :: ledger where
  "empty_ledger = \<lparr>fill_history = [], applied = 0, net_quantity = (\<lambda>s. 0)\<rparr>"

text \<open>
  Modelled from the spec: the unit applied for one fill, absent from the notebook. The
  Position update and the record that the fill is applied change together.
\<close>

definition apply_unit :: "ledger \<Rightarrow> fill \<Rightarrow> ledger" where
  "apply_unit l f =
     l\<lparr>applied := Suc (applied l),
       net_quantity := (net_quantity l)
         (fill_symbol f := net_quantity l (fill_symbol f) + signed_quantity f)\<rparr>"

text \<open>
  Modelled from the spec: the broker executes a fill, which enters its fill history;
  nothing of the local state changes yet.
\<close>

definition broker_fills :: "ledger \<Rightarrow> fill \<Rightarrow> ledger" where
  "broker_fills l f = l\<lparr>fill_history := fill_history l @ [f]\<rparr>"

text \<open>
  Modelled from the spec: the recovery procedure on restart, absent from the notebook.
  It reads the broker's fill history and applies the unit of every fill not applied.
\<close>

definition recover :: "ledger \<Rightarrow> ledger" where
  "recover l = foldl apply_unit l (drop (applied l) (fill_history l))"

text \<open>
  Modelled from the spec: the events of the ledger. A fill either is processed
  normally, or the process crashes after the broker has executed the fill and before
  its unit is applied. While the process is down the broker may execute further fills;
  then the process is restarted and recovers.
\<close>

datatype ledger_event = Fill fill | CrashAndRestart fill "fill list"

fun fills_of :: "ledger_event \<Rightarrow> fill list" where
  "fills_of (Fill f) = [f]"
| "fills_of (CrashAndRestart f fs) = f # fs"

fun ledger_step :: "ledger \<Rightarrow> ledger_event \<Rightarrow> ledger" where
  "ledger_step l (Fill f) = apply_unit (broker_fills l f) f"
| "ledger_step l (CrashAndRestart f fs) = recover (foldl broker_fills l (f # fs))"

definition run_ledger :: "ledger_event list \<Rightarrow> ledger" where
  "run_ledger evs = foldl ledger_step empty_ledger evs"

definition signed_fill_sum :: "string \<Rightarrow> fill list \<Rightarrow> int" where
  "signed_fill_sum s fs = sum_list (map signed_quantity (filter (\<lambda>f. fill_symbol f = s) fs))"

text \<open>Fills for concrete runs of the ledger.\<close>

definition buy_fill :: "nat \<Rightarrow> fill" where
  "buy_fill k = \<lparr>fill_client_order_id = ''o1'', fill_symbol = ''X'', fill_side = BUY,
     fill_quantity = k\<rparr>"

definition sell_fill :: "nat \<Rightarrow> fill" where
  "sell_fill k = \<lparr>fill_client_order_id = ''o2'', fill_symbol = ''X'', fill_side = SELL,
     fill_quantity = k\<rparr>"

definition sample_ledger_events :: "ledger_event list" where
  "sample_ledger_events =
     [Fill (buy_fill 5), CrashAndRestart (buy_fill 3) [sell_fill 2], Fill (sell_fill 1)]"

section \<open>Properties of the backtesting strategy\<close>

lemma and_then_Inr [simp]: "and_then (Inr v) f = f v"
  by (simp add: and_then_def)

lemma and_then_Inl [simp]: "and_then (Inl e) f = Inl e"
  by (simp add: and_then_def)

lemmas stub_defs = headline_def bullish_feed_def bearish_feed_def neutral_feed_def
  oscillating_feed_def classification_def

lemmas strategy_defs = strategy_next_def fetch_news_def analyze_sentiment_def sentiment_score_def

text \<open>
  What \<open>next\<close> adds to the order list does not depend on the orders already issued.
\<close>

lemma strategy_next_append:
  "strategy_next p n orders =
     (case strategy_next p n [] of Inl e \<Rightarrow> Inl e | Inr s \<Rightarrow> Inr (orders @ s))"
  by (auto simp: strategy_next_def and_then_def split: sum.splits)

lemma sentiment_score_classification:
  "sentiment_score (PyList (classification l s # others))
     = Inr (PyFloat (if l = ''positive'' then s else - s))"
  by (simp add: sentiment_score_def classification_def)

text \<open>
  Two runs over feeds of the same length agree when the news client gives the same
  answers to the query at every bar. The proof follows the run bar by bar.
\<close>

lemma cerebro_run_cong:
  "length d = length d' \<Longrightarrow>
   (\<forall>k < length d. fetch_news (feed (i + k)) ''Brent Oil''
                     = fetch_news (feed' (i + k)) ''Brent Oil'') \<Longrightarrow>
   cerebro_run p feed i d orders = cerebro_run p feed' i d' orders"
proof (induction d arbitrary: d' i orders)
  case Nil
  then show ?case by simp
next
  case (Cons b bs)
  then obtain b' bs' where d': "d' = b' # bs'" and len: "length bs = length bs'"
    by (cases d') auto
  from Cons.prems(2)
  have h0: "fetch_news (feed i) ''Brent Oil'' = fetch_news (feed' i) ''Brent Oil''"
    by (metis add.right_neutral length_greater_0_conv list.distinct(1))
  have step: "strategy_next p (feed i) orders = strategy_next p (feed' i) orders"
    by (simp add: strategy_next_def h0)
  have rest: "\<forall>k < length bs. fetch_news (feed (Suc i + k)) ''Brent Oil''
                                = fetch_news (feed' (Suc i + k)) ''Brent Oil''"
    using Cons.prems(2) by (metis Suc_less_eq add_Suc_shift length_Cons)
  show ?case
    using Cons.IH[OF len rest] by (simp add: d' step split: sum.splits)
qed

text \<open>
  When every bar's call of \<open>next\<close> issues an order, the run issues as many orders as
  the feed has bars.
\<close>

lemma cerebro_run_every_tick:
  "(\<forall>k < length d. \<exists>sg. strategy_next p (feed (i + k)) [] = Inr [sg]) \<Longrightarrow>
   \<exists>sgs. cerebro_run p feed i d orders = (orders @ sgs, None) \<and> length sgs = length d"
proof (induction d arbitrary: i orders)
  case Nil
  then show ?case by simp
next
  case (Cons b bs)
  from Cons.prems obtain sg where sg: "strategy_next p (feed i) [] = Inr [sg]"
    by (metis add.right_neutral length_greater_0_conv list.distinct(1))
  have step: "strategy_next p (feed i) orders = Inr (orders @ [sg])"
    by (subst strategy_next_append) (simp add: sg)
  have rest: "\<forall>k < length bs. \<exists>sg. strategy_next p (feed (Suc i + k)) [] = Inr [sg]"
    using Cons.prems by (metis Suc_less_eq add_Suc_shift length_Cons)
  from Cons.IH[OF rest, of "orders @ [sg]"] obtain sgs where
    "cerebro_run p feed (Suc i) bs (orders @ [sg]) = ((orders @ [sg]) @ sgs, None)"
    "length sgs = length bs" by blast
  then have "cerebro_run p feed i (b # bs) orders = (orders @ (sg # sgs), None)
      \<and> length (sg # sgs) = length (b # bs)"
    by (simp add: step)
  then show ?case by blast
qed

lemma oscillating_feed_emits:
  "\<exists>sg. strategy_next finbert_stub (oscillating_feed i) [] = Inr [sg]"
  by (simp add: strategy_defs stub_defs)

subsection \<open>Determinism of the strategy's output\<close>

text \<open>
  \<open>next\<close> asks the news service for the latest articles while it runs. The same bar and
  the same analyzer give a buy when the service answers with one headline and a sell
  when it answers with another: the output is not a function of the event sequence and
  the configuration alone.
\<close>

theorem run_backtest_news_counterexample:
  "run_backtest (flat_bars 1) finbert_stub bullish_feed
     \<noteq> run_backtest (flat_bars 1) finbert_stub bearish_feed"
  by (simp add: run_backtest_def flat_bars_def strategy_defs stub_defs)

text \<open>
  Claim C1, as the code has it. The orders of a run are a function of the sentiment
  pipeline, the number of bars and the answers the news service gives to the query
  \<open>Brent Oil\<close> at each bar: two runs over feeds of the same length that receive the
  same answers issue the same orders and end the same way, whatever the bars hold.
\<close>

theorem run_backtest_determined_by_news:
  assumes "length d = length d'"
    and "\<forall>i < length d. fetch_news (feed i) ''Brent Oil'' = fetch_news (feed' i) ''Brent Oil''"
  shows "run_backtest d p feed = run_backtest d' p feed'"
  unfolding run_backtest_def using assms by (intro cerebro_run_cong) simp_all

theorem run_backtest_determined_by_news_witness:
  "run_backtest (flat_bars 2) finbert_stub oscillating_feed
     = run_backtest falling_bars finbert_stub oscillating_feed
   \<and> run_backtest falling_bars finbert_stub oscillating_feed = ([Buy, Sell], None)"
proof -
  have "length (flat_bars 2) = length falling_bars"
    by (simp add: flat_bars_def falling_bars_def)
  then have "run_backtest (flat_bars 2) finbert_stub oscillating_feed
     = run_backtest falling_bars finbert_stub oscillating_feed"
    by (rule run_backtest_determined_by_news) simp
  moreover have "run_backtest falling_bars finbert_stub oscillating_feed = ([Buy, Sell], None)"
    by (simp add: run_backtest_def falling_bars_def strategy_defs stub_defs)
  ultimately show ?thesis by simp
qed

subsection \<open>What triggers an order\<close>

text \<open>
  With the price falling from 80 to 70 and the same bullish headline at both bars, the
  strategy buys twice: the price is never consulted, and the second buy is issued while
  the first already stands.
\<close>

theorem sentiment_alone_counterexample:
  "run_backtest falling_bars finbert_stub bullish_feed = ([Buy, Buy], None)
   \<and> bar_close (falling_bars ! 1) < bar_close (falling_bars ! 0)"
  by (simp add: run_backtest_def falling_bars_def bar_at_def strategy_defs stub_defs)

text \<open>
  Claim C5, as the code has it. On every call, \<open>next\<close> issues nothing when the news
  service returns no article; otherwise it looks at the signed score \<open>x\<close> of the first
  article's title only, buys when \<open>x > 0.5\<close>, sells when \<open>x < -0.5\<close> and does
  nothing in between. There is no average over earlier scores, no price condition and
  no check of the orders already issued.
\<close>

theorem strategy_next_threshold_only:
  "(fetch_news n ''Brent Oil'' = Inr (PyList []) \<longrightarrow> strategy_next p n orders = Inr orders)
   \<and> (fetch_news n ''Brent Oil'' = Inr (PyList (a # rest))
        \<and> subscript_key a ''title'' = Inr t
        \<and> p t = Inr sentiment
        \<and> sentiment_score sentiment = Inr (PyFloat x)
      \<longrightarrow> strategy_next p n orders =
            Inr (orders @ (if x > 0.5 then [Buy] else if x < - 0.5 then [Sell] else [])))"
  by (simp add: strategy_next_def analyze_sentiment_def)

theorem strategy_next_threshold_only_witness:
  "strategy_next finbert_stub (bullish_feed 0) [Buy] = Inr [Buy, Buy]"
proof -
  have "fetch_news (bullish_feed 0) ''Brent Oil''
          = Inr (PyList [PyDict [(''title'', PyStr ''Oil surges'')]])"
    by (simp add: fetch_news_def stub_defs)
  moreover have "subscript_key (PyDict [(''title'', PyStr ''Oil surges'')]) ''title''
          = Inr (PyStr ''Oil surges'')"
    by simp
  moreover have "finbert_stub (PyStr ''Oil surges'')
          = Inr (PyList [classification ''positive'' 0.9])"
    by simp
  moreover have "sentiment_score (PyList [classification ''positive'' 0.9]) = Inr (PyFloat 0.9)"
    by (simp add: sentiment_score_def classification_def)
  ultimately show ?thesis
    using strategy_next_threshold_only [of "bullish_feed 0" finbert_stub "[Buy]"
        "PyDict [(''title'', PyStr ''Oil surges'')]" "[]" "PyStr ''Oil surges''"
        "PyList [classification ''positive'' 0.9]" "0.9"]
    by simp
qed

subsection \<open>The sign of the score\<close>

text \<open>
  Claim C10. When the first entry of the pipeline's answer has label \<open>lab\<close> and score
  \<open>s\<close>, the signed score is \<open>s\<close> if the label is exactly \<open>positive\<close> and \<open>-s\<close> for
  every other label. So an article classified \<open>neutral\<close> with a score above 0.5 makes
  \<open>next\<close> sell.
\<close>

theorem neutral_label_sells:
  "(map_of d ''label'' = Some lab \<and> map_of d ''score'' = Some (PyFloat s)
      \<longrightarrow> sentiment_score (PyList (PyDict d # others))
            = Inr (PyFloat (if lab = PyStr ''positive'' then s else - s)))
   \<and> (fetch_news n ''Brent Oil'' = Inr (PyList (a # rest))
        \<and> subscript_key a ''title'' = Inr t
        \<and> p t = Inr (PyList (classification ''neutral'' s # others))
        \<and> s > 0.5
      \<longrightarrow> strategy_next p n orders = Inr (orders @ [Sell]))"
  by (simp add: strategy_next_def analyze_sentiment_def sentiment_score_def classification_def)

theorem neutral_label_sells_witness:
  "sentiment_score (PyList [classification ''neutral'' 0.9]) = Inr (PyFloat (- 0.9))
   \<and> strategy_next finbert_stub (neutral_feed 0) [] = Inr [Sell]"
proof -
  have f: "fetch_news (neutral_feed 0) ''Brent Oil''
             = Inr (PyList [PyDict [(''title'', PyStr ''OPEC meets'')]])"
    by (simp add: fetch_news_def stub_defs)
  have t: "subscript_key (PyDict [(''title'', PyStr ''OPEC meets'')]) ''title''
             = Inr (PyStr ''OPEC meets'')"
    by simp
  have s: "finbert_stub (PyStr ''OPEC meets'') = Inr (PyList [classification ''neutral'' 0.9])"
    by simp
  note inst = neutral_label_sells [of "[(''label'', PyStr ''neutral''), (''score'', PyFloat 0.9)]"
        "PyStr ''neutral''" "0.9" "[]" "neutral_feed 0"
        "PyDict [(''title'', PyStr ''OPEC meets'')]" "[]" "PyStr ''OPEC meets''" finbert_stub "[]"]
  show ?thesis using inst f t s by (simp add: classification_def)
qed

subsection \<open>What the analyzer returns\<close>

text \<open>
  \<open>analyze_sentiment\<close> does not return a number: it returns the pipeline's answer, a
  list of label and score entries.
\<close>

theorem analyze_sentiment_counterexample:
  "\<not> score_in_unit_interval (analyze_sentiment finbert_stub (PyStr ''Oil surges''))"
  by (simp add: analyze_sentiment_def)

text \<open>
  Claim C6, as the code has it. \<open>analyze_sentiment\<close> returns the pipeline's answer for
  the text unchanged, a list of label and score entries. The signed score that \<open>next\<close>
  derives from the first entry is a single number in the closed interval from -1 to 1
  whenever that entry's score lies between 0 and 1.
\<close>

theorem analyze_sentiment_passes_through:
  assumes "analyze_sentiment p t = Inr sentiment"
    and "subscript0 sentiment = Inr (classification l s)"
    and "0 \<le> s" and "s \<le> 1"
  shows "p t = Inr sentiment \<and> score_in_unit_interval (sentiment_score sentiment)"
proof -
  from assms(2) obtain others where "sentiment = PyList (classification l s # others)"
    by (cases sentiment rule: subscript0.cases) (auto simp: classification_def)
  then have "sentiment_score sentiment = Inr (PyFloat (if l = ''positive'' then s else - s))"
    by (simp add: sentiment_score_classification)
  with assms show ?thesis by (simp add: analyze_sentiment_def)
qed

theorem analyze_sentiment_passes_through_witness:
  "finbert_stub (PyStr ''Oil plunges'') = Inr (PyList [classification ''negative'' 0.9])
   \<and> score_in_unit_interval (sentiment_score (PyList [classification ''negative'' 0.9]))"
  using analyze_sentiment_passes_through [of finbert_stub "PyStr ''Oil plunges''"
      "PyList [classification ''negative'' 0.9]" "''negative''" "0.9"]
  by (simp add: analyze_sentiment_def)

subsection \<open>Orders under oscillating sentiment\<close>

text \<open>
  Five bars with headlines that alternate between bullish and bearish give five orders,
  one at every bar: nothing between the signal and the order holds any of them back.
\<close>

theorem no_rate_limit_counterexample:
  "fst (run_backtest (flat_bars 5) finbert_stub oscillating_feed) = [Buy, Sell, Buy, Sell, Buy]"
  by (simp add: run_backtest_def flat_bars_def upt_rec strategy_defs stub_defs)

text \<open>
  Claim C8, as the code has it. The notebook limits no rate: when every bar's call of
  \<open>next\<close> meets a score beyond a threshold, the run issues exactly one order per bar,
  as many orders as the feed has bars.
\<close>

theorem one_order_per_qualifying_bar:
  assumes "\<forall>i < length d. \<exists>sg. strategy_next p (feed i) [] = Inr [sg]"
  shows "\<exists>sgs. run_backtest d p feed = (sgs, None) \<and> length sgs = length d"
  using cerebro_run_every_tick [of d p feed 0 "[]"] assms by (simp add: run_backtest_def)

theorem one_order_per_qualifying_bar_witness:
  "\<exists>sgs. run_backtest (flat_bars 5) finbert_stub oscillating_feed = (sgs, None) \<and> length sgs = 5"
  using one_order_per_qualifying_bar [of "flat_bars 5" finbert_stub oscillating_feed]
    oscillating_feed_emits
  by (simp add: flat_bars_def)

section \<open>Properties of the trade executor\<close>

lemmas executor_defs = place_order_def submit_order_def

lemma place_order_broker:
  "broker (snd (place_order api sy n sd ty tif w))
     = snd (api \<lparr>symbol = sy, qty = n, side = sd, order_type = ty, time_in_force = tif,
                  client_order_id = None\<rparr> (broker w))"
  by (simp add: executor_defs split: prod.splits sum.splits raised.splits)

subsection \<open>Repeated submission\<close>

text \<open>
  The same order placed twice with the paper broker leaves two live orders. The broker
  would refuse a repeated \<open>client_order_id\<close>, but \<open>place_order\<close> sends none.
\<close>

theorem place_order_twice_counterexample:
  "length (broker (snd (place_order paper_broker ''BZ=F'' 1 ''buy'' ''market'' ''gtc''
      (snd (place_order paper_broker ''BZ=F'' 1 ''buy'' ''market'' ''gtc'' fresh_world))))) = 2"
  by (simp add: place_order_def submit_order_def paper_broker_def fresh_world_def)

text \<open>
  Claim C2, as the code has it. \<open>place_order\<close> sends every call to the broker as a
  request without a \<open>client_order_id\<close>. With a broker that accepts each such request
  as a new order (\<open>live\<close> counts the broker's live orders), \<open>k\<close> identical calls leave
  \<open>k\<close> more live orders: submission is not idempotent.
\<close>

theorem place_order_every_call_new_order:
  assumes "\<forall>req b. client_order_id req = None \<longrightarrow>
             (\<exists>ord b'. api req b = (Inr ord, b') \<and> live b' = Suc (live b))"
  shows "live (broker (((\<lambda>w. snd (place_order api sy n sd ty tif w)) ^^ k) w))
           = live (broker w) + k"
proof (induction k)
  case 0
  then show ?case by simp
next
  case (Suc k)
  let ?w = "((\<lambda>w. snd (place_order api sy n sd ty tif w)) ^^ k) w"
  let ?req = "\<lparr>symbol = sy, qty = n, side = sd, order_type = ty, time_in_force = tif,
         client_order_id = None\<rparr>"
  from assms obtain ord b' where a: "api ?req (broker ?w) = (Inr ord, b')"
    and l: "live b' = Suc (live (broker ?w))"
    by (metis order_request.select_convs(6))
  have "broker (snd (place_order api sy n sd ty tif ?w)) = b'"
    by (simp add: place_order_broker a)
  with l Suc show ?case by simp
qed

theorem place_order_every_call_new_order_witness:
  "length (broker (((\<lambda>w. snd (place_order paper_broker ''BZ=F'' 1 ''buy'' ''market'' ''gtc'' w)) ^^ 3)
      fresh_world)) = 3"
proof -
  have "\<forall>req b. client_order_id req = None \<longrightarrow>
             (\<exists>ord b'. paper_broker req b = (Inr ord, b') \<and> length b' = Suc (length b))"
    by (simp add: paper_broker_def)
  from place_order_every_call_new_order [OF this, where sy = "''BZ=F''" and n = 1
      and sd = "''buy''" and ty = "''market''" and tif = "''gtc''" and k = 3 and w = fresh_world]
  show ?thesis by (simp add: fresh_world_def)
qed

subsection \<open>A failed submission\<close>

text \<open>
  A time-out after the broker has accepted the order and a rejection give the same
  result, \<open>None\<close>; no order state is kept. Placing the order again after the time-out
  reaches the broker as a second submission with no status query before it, and two
  orders are live.
\<close>

theorem no_reconciliation_counterexample:
  "fst (place_order lossy_broker ''BZ=F'' 1 ''buy'' ''market'' ''gtc'' fresh_world) = Inr None
   \<and> fst (place_order rejecting_broker ''BZ=F'' 1 ''buy'' ''market'' ''gtc'' fresh_world) = Inr None
   \<and> calls (snd (place_order lossy_broker ''BZ=F'' 1 ''buy'' ''market'' ''gtc''
        (snd (place_order lossy_broker ''BZ=F'' 1 ''buy'' ''market'' ''gtc'' fresh_world))))
      = [SubmitOrder \<lparr>symbol = ''BZ=F'', qty = 1, side = ''buy'', order_type = ''market'',
                      time_in_force = ''gtc'', client_order_id = None\<rparr>,
         SubmitOrder \<lparr>symbol = ''BZ=F'', qty = 1, side = ''buy'', order_type = ''market'',
                      time_in_force = ''gtc'', client_order_id = None\<rparr>]
   \<and> length (broker (snd (place_order lossy_broker ''BZ=F'' 1 ''buy'' ''market'' ''gtc''
        (snd (place_order lossy_broker ''BZ=F'' 1 ''buy'' ''market'' ''gtc'' fresh_world))))) = 2"
  by (simp add: place_order_def submit_order_def lossy_broker_def rejecting_broker_def
      fresh_world_def)

text \<open>
  Claim C3, as the code has it. Every call of \<open>place_order\<close> makes exactly one call to
  the broker, the submission; it makes no status query and no cancel, and it never
  submits again. When the submission raises a subclass of \<open>Exception\<close>, whichever it
  is, \<open>place_order\<close> prints the error and returns \<open>None\<close>; the broker is left as the
  failed call left it.
\<close>

theorem place_order_failure_one_call:
  "calls (snd (place_order api sy n sd ty tif w))
     = calls w @ [SubmitOrder \<lparr>symbol = sy, qty = n, side = sd, order_type = ty,
                    time_in_force = tif, client_order_id = None\<rparr>]
   \<and> (api \<lparr>symbol = sy, qty = n, side = sd, order_type = ty, time_in_force = tif,
            client_order_id = None\<rparr> (broker w) = (Inl (Exception e), b')
      \<longrightarrow> fst (place_order api sy n sd ty tif w) = Inr None
        \<and> stdout (snd (place_order api sy n sd ty tif w))
            = stdout w @ [''Error placing order: '' @ str e]
        \<and> broker (snd (place_order api sy n sd ty tif w)) = b')"
proof -
  obtain r b where "api \<lparr>symbol = sy, qty = n, side = sd, order_type = ty,
      time_in_force = tif, client_order_id = None\<rparr> (broker w) = (r, b)"
    by (cases "api \<lparr>symbol = sy, qty = n, side = sd, order_type = ty,
      time_in_force = tif, client_order_id = None\<rparr> (broker w)")
  then show ?thesis by (cases r) (auto simp: executor_defs split: raised.splits)
qed

theorem place_order_failure_one_call_witness:
  "calls (snd (place_order lossy_broker ''BZ=F'' 1 ''buy'' ''market'' ''gtc'' fresh_world))
     = [SubmitOrder \<lparr>symbol = ''BZ=F'', qty = 1, side = ''buy'', order_type = ''market'',
                    time_in_force = ''gtc'', client_order_id = None\<rparr>]
   \<and> fst (place_order lossy_broker ''BZ=F'' 1 ''buy'' ''market'' ''gtc'' fresh_world) = Inr None
   \<and> stdout (snd (place_order lossy_broker ''BZ=F'' 1 ''buy'' ''market'' ''gtc'' fresh_world))
       = [''Error placing order: Read timed out'']"
  using place_order_failure_one_call [where api = lossy_broker and sy = "''BZ=F''" and n = 1
      and sd = "''buy''" and ty = "''market''" and tif = "''gtc''" and w = fresh_world
      and e = "Timeout ''Read timed out''"
      and b' = "[\<lparr>order_id = 0, request = \<lparr>symbol = ''BZ=F'', qty = 1, side = ''buy'',
                    order_type = ''market'', time_in_force = ''gtc'', client_order_id = None\<rparr>\<rparr>]"]
  by (simp add: lossy_broker_def fresh_world_def)

subsection \<open>Which exceptions reach the caller\<close>

text \<open>
  A keyboard interrupt that arrives during the broker call is not a subclass of
  \<open>Exception\<close>: the handler does not catch it and it leaves \<open>place_order\<close>.
\<close>

theorem place_order_keyboard_interrupt_counterexample:
  "fst (place_order interrupted_broker ''BZ=F'' 1 ''buy'' ''market'' ''gtc'' fresh_world)
     = Inl KeyboardInterrupt"
  by (simp add: executor_defs interrupted_broker_def fresh_world_def)

text \<open>
  Claim C9, as the code has it. What the broker call raises leaves \<open>place_order\<close>
  exactly when it is not a subclass of \<open>Exception\<close>. \<open>place_order\<close> returns the
  broker's order object exactly when the submission succeeds and \<open>None\<close> exactly when
  the submission raises a subclass of \<open>Exception\<close>; so two such failures, a transient
  one and a permanent one, give the caller the same value.
\<close>

theorem place_order_catches_exception_subclasses:
  "(fst (place_order api sy n sd ty tif w) = Inl x
        \<longleftrightarrow> fst (api \<lparr>symbol = sy, qty = n, side = sd, order_type = ty, time_in_force = tif,
                        client_order_id = None\<rparr> (broker w)) = Inl x
            \<and> (\<forall>e. x \<noteq> Exception e))
   \<and> (fst (place_order api sy n sd ty tif w) = Inr (Some ord)
        \<longleftrightarrow> fst (api \<lparr>symbol = sy, qty = n, side = sd, order_type = ty, time_in_force = tif,
                        client_order_id = None\<rparr> (broker w)) = Inr ord)
   \<and> (fst (place_order api sy n sd ty tif w) = Inr None
        \<longleftrightarrow> (\<exists>e. fst (api \<lparr>symbol = sy, qty = n, side = sd, order_type = ty,
                        time_in_force = tif, client_order_id = None\<rparr> (broker w))
                  = Inl (Exception e)))
   \<and> (fst (api \<lparr>symbol = sy, qty = n, side = sd, order_type = ty, time_in_force = tif,
                client_order_id = None\<rparr> (broker w)) = Inl (Exception e)
        \<and> fst (api' \<lparr>symbol = sy, qty = n, side = sd, order_type = ty, time_in_force = tif,
                client_order_id = None\<rparr> (broker w')) = Inl (Exception e')
      \<longrightarrow> fst (place_order api sy n sd ty tif w) = fst (place_order api' sy n sd ty tif w'))"
proof -
  obtain r b where a: "api \<lparr>symbol = sy, qty = n, side = sd, order_type = ty,
      time_in_force = tif, client_order_id = None\<rparr> (broker w) = (r, b)"
    by (cases "api \<lparr>symbol = sy, qty = n, side = sd, order_type = ty,
      time_in_force = tif, client_order_id = None\<rparr> (broker w)")
  obtain r' b2 where a': "api' \<lparr>symbol = sy, qty = n, side = sd, order_type = ty,
      time_in_force = tif, client_order_id = None\<rparr> (broker w') = (r', b2)"
    by (cases "api' \<lparr>symbol = sy, qty = n, side = sd, order_type = ty,
      time_in_force = tif, client_order_id = None\<rparr> (broker w')")
  show ?thesis
    by (cases r; cases r')
       (auto simp: executor_defs a a' split: raised.splits)
qed

theorem place_order_catches_exception_subclasses_witness:
  "fst (place_order lossy_broker ''BZ=F'' 1 ''buy'' ''market'' ''gtc'' fresh_world)
     = fst (place_order rejecting_broker ''BZ=F'' 1 ''buy'' ''market'' ''gtc'' fresh_world)
   \<and> fst (place_order lossy_broker ''BZ=F'' 1 ''buy'' ''market'' ''gtc'' fresh_world) = Inr None"
  using place_order_catches_exception_subclasses [where api = lossy_broker and sy = "''BZ=F''"
      and n = 1 and sd = "''buy''" and ty = "''market''" and tif = "''gtc''" and w = fresh_world
      and e = "Timeout ''Read timed out''" and api' = rejecting_broker and w' = fresh_world
      and e' = "APIError ''insufficient buying power''"
      and x = KeyboardInterrupt
      and ord = "\<lparr>order_id = 0, request = \<lparr>symbol = ''BZ=F'', qty = 1, side = ''buy'',
                    order_type = ''market'', time_in_force = ''gtc'', client_order_id = None\<rparr>\<rparr>"]
  by (auto simp: lossy_broker_def rejecting_broker_def fresh_world_def)

section \<open>Properties of the Event Stream Merger\<close>

lemma goes_first_total: "\<not> goes_first a b \<Longrightarrow> goes_first b a"
  by (auto simp: goes_first_def)

lemma goes_first_trans: "goes_first a b \<Longrightarrow> goes_first b c \<Longrightarrow> goes_first a c"
  by (auto simp: goes_first_def)

lemma set_merge2: "set (merge2 xs ys) = set xs \<union> set ys"
  by (induction xs ys rule: merge2.induct) auto

lemma mset_merge2: "mset (merge2 xs ys) = mset xs + mset ys"
  by (induction xs ys rule: merge2.induct) auto

lemma sorted_wrt_merge2:
  "sorted_wrt goes_first xs \<Longrightarrow> sorted_wrt goes_first ys
    \<Longrightarrow> sorted_wrt goes_first (merge2 xs ys)"
proof (induction xs ys rule: merge2.induct)
  case (3 x xs y ys)
  show ?case
  proof (cases "goes_first x y")
    case True
    have "\<forall>z \<in> set ys. goes_first x z"
      using "3.prems"(2) True goes_first_trans by auto
    with 3 True show ?thesis by (auto simp: set_merge2)
  next
    case False
    then have yx: "goes_first y x" by (rule goes_first_total)
    have "\<forall>z \<in> set xs. goes_first y z"
      using "3.prems"(1) yx goes_first_trans by auto
    with 3 False yx show ?thesis by (auto simp: set_merge2)
  qed
qed simp_all

text \<open>
  A producer holds events of one kind, so non-decreasing timestamps already put its
  events in emission order.
\<close>

lemma produced_sorted:
  "sorted (map timestamp (produced p)) \<Longrightarrow> sorted_wrt goes_first (produced p)"
proof (cases p)
  case (BarProducer bs)
  assume "sorted (map timestamp (produced p))"
  then show ?thesis unfolding BarProducer
    by (induction bs) (auto simp: goes_first_def)
next
  case (NewsProducer ns)
  assume "sorted (map timestamp (produced p))"
  then show ?thesis unfolding NewsProducer
    by (induction ns) (auto simp: goes_first_def)
qed

lemma merger_sorted_wrt:
  "(\<forall>p \<in> set ps. sorted (map timestamp (produced p))) \<Longrightarrow>
   sorted_wrt goes_first (event_stream_merger ps)"
  by (induction ps) (auto simp: event_stream_merger_def sorted_wrt_merge2 produced_sorted)

lemma merger_mset:
  "mset (event_stream_merger ps) = (\<Sum>p\<leftarrow>ps. mset (produced p))"
  by (induction ps) (auto simp: event_stream_merger_def mset_merge2)

lemma sorted_wrt_goes_first_timestamps:
  "sorted_wrt goes_first es \<Longrightarrow> sorted (map timestamp es)"
  by (induction es) (auto simp: goes_first_def)

text \<open>
  Claim C7. For every list of producers whose timestamps are each non-decreasing, in
  whatever order the producers are handed to the merger, the merged sequence has
  non-decreasing timestamps; of two events with the same timestamp, a bar is never
  emitted after a news event; and the merged sequence holds exactly the producers'
  events.
\<close>

theorem merger_ordered:
  assumes "\<forall>p \<in> set ps. sorted (map timestamp (produced p))"
  shows "sorted (map timestamp (event_stream_merger ps))
       \<and> (\<forall>i j. i < j \<and> j < length (event_stream_merger ps)
             \<and> timestamp (event_stream_merger ps ! i) = timestamp (event_stream_merger ps ! j)
             \<and> is_bar (event_stream_merger ps ! j)
           \<longrightarrow> is_bar (event_stream_merger ps ! i))
       \<and> mset (event_stream_merger ps) = (\<Sum>p\<leftarrow>ps. mset (produced p))"
proof -
  have sw: "sorted_wrt goes_first (event_stream_merger ps)"
    using assms by (rule merger_sorted_wrt)
  have "\<forall>i j. i < j \<and> j < length (event_stream_merger ps)
             \<and> timestamp (event_stream_merger ps ! i) = timestamp (event_stream_merger ps ! j)
             \<and> is_bar (event_stream_merger ps ! j)
           \<longrightarrow> is_bar (event_stream_merger ps ! i)"
  proof (intro allI impI)
    fix i j
    assume h: "i < j \<and> j < length (event_stream_merger ps)
             \<and> timestamp (event_stream_merger ps ! i) = timestamp (event_stream_merger ps ! j)
             \<and> is_bar (event_stream_merger ps ! j)"
    then have "goes_first (event_stream_merger ps ! i) (event_stream_merger ps ! j)"
      using sw by (simp add: sorted_wrt_iff_nth_less)
    with h show "is_bar (event_stream_merger ps ! i)"
      by (auto simp: goes_first_def)
  qed
  with sw show ?thesis
    by (simp add: sorted_wrt_goes_first_timestamps merger_mset)
qed

theorem merger_ordered_witness:
  "sorted (map timestamp (event_stream_merger sample_producers))
   \<and> event_stream_merger sample_producers
       = [MarketBar (sample_bar 1), MarketBar (sample_bar 2),
          NewsEvent (sample_news 2), NewsEvent (sample_news 3)]"
proof -
  have "\<forall>p \<in> set sample_producers. sorted (map timestamp (produced p))"
    by (simp add: sample_producers_def sample_bar_def sample_news_def)
  from merger_ordered [OF this] show ?thesis
    by (simp add: sample_producers_def event_stream_merger_def goes_first_def
        sample_bar_def sample_news_def)
qed

section \<open>Properties of the position ledger\<close>

lemma signed_fill_sum_append:
  "signed_fill_sum s (fs @ gs) = signed_fill_sum s fs + signed_fill_sum s gs"
  by (simp add: signed_fill_sum_def)

lemma foldl_apply_unit:
  "fill_history (foldl apply_unit l fs) = fill_history l
   \<and> applied (foldl apply_unit l fs) = applied l + length fs
   \<and> net_quantity (foldl apply_unit l fs) s = net_quantity l s + signed_fill_sum s fs"
  by (induction fs arbitrary: l) (auto simp: apply_unit_def signed_fill_sum_def)

lemma foldl_broker_fills:
  "fill_history (foldl broker_fills l fs) = fill_history l @ fs
   \<and> applied (foldl broker_fills l fs) = applied l
   \<and> net_quantity (foldl broker_fills l fs) = net_quantity l"
  by (induction fs arbitrary: l) (auto simp: broker_fills_def)

text \<open>Recovery applies exactly the fills of the history that were not applied yet.\<close>

lemma recover_catches_up:
  assumes "applied l \<le> length (fill_history l)"
  shows "fill_history (recover l) = fill_history l
       \<and> applied (recover l) = length (fill_history l)
       \<and> net_quantity (recover l) s
           = net_quantity l s + signed_fill_sum s (drop (applied l) (fill_history l))"
  using assms by (simp add: recover_def foldl_apply_unit)

text \<open>
  The invariant of the ledger between events: every fill of the history is applied
  and the net quantities are the signed sums. Each event keeps it and extends the
  history by the event's fills.
\<close>

lemma ledger_step_invariant:
  assumes "applied l = length (fill_history l)"
    and "\<And>s. net_quantity l s = signed_fill_sum s (fill_history l)"
  shows "fill_history (ledger_step l ev) = fill_history l @ fills_of ev
       \<and> applied (ledger_step l ev) = length (fill_history (ledger_step l ev))
       \<and> net_quantity (ledger_step l ev) s
           = signed_fill_sum s (fill_history (ledger_step l ev))"
proof (cases ev)
  case (Fill f)
  show ?thesis
    using assms by (simp add: Fill apply_unit_def broker_fills_def signed_fill_sum_def)
next
  case (CrashAndRestart f fs)
  let ?down = "foldl broker_fills l (f # fs)"
  have h: "fill_history ?down = fill_history l @ f # fs" "applied ?down = applied l"
    "net_quantity ?down = net_quantity l"
    using foldl_broker_fills [of l "f # fs"] by simp_all
  have "applied ?down \<le> length (fill_history ?down)"
    using assms(1) h by simp
  from recover_catches_up [OF this, of s] show ?thesis
    using assms h by (simp add: CrashAndRestart signed_fill_sum_append del: foldl_Cons)
qed

lemma foldl_ledger_step_invariant:
  assumes "applied l = length (fill_history l)"
    and "\<And>s. net_quantity l s = signed_fill_sum s (fill_history l)"
  shows "fill_history (foldl ledger_step l evs) = fill_history l @ concat (map fills_of evs)
       \<and> net_quantity (foldl ledger_step l evs) s
           = signed_fill_sum s (fill_history (foldl ledger_step l evs))"
  using assms
proof (induction evs arbitrary: l)
  case Nil
  then show ?case by simp
next
  case (Cons ev evs)
  have a: "applied (ledger_step l ev) = length (fill_history (ledger_step l ev))"
    using ledger_step_invariant [OF Cons.prems] by simp
  have b: "\<And>s. net_quantity (ledger_step l ev) s
             = signed_fill_sum s (fill_history (ledger_step l ev))"
    using ledger_step_invariant [OF Cons.prems] by simp
  have c: "fill_history (ledger_step l ev) = fill_history l @ fills_of ev"
    using ledger_step_invariant [OF Cons.prems] by simp
  from Cons.IH [OF a b] show ?case by (simp add: c)
qed

text \<open>
  Claim C4. After every sequence of fill events, with a crash and restart between any
  fill and its position update, the fill history holds exactly the fills of the events
  and the net quantity of every symbol equals the signed sum of that symbol's fills.
\<close>

theorem net_quantity_is_signed_fill_sum:
  "fill_history (run_ledger evs) = concat (map fills_of evs)
   \<and> net_quantity (run_ledger evs) s = signed_fill_sum s (concat (map fills_of evs))"
proof -
  have "applied empty_ledger = length (fill_history empty_ledger)"
    by (simp add: empty_ledger_def)
  moreover have "\<And>s. net_quantity empty_ledger s
                   = signed_fill_sum s (fill_history empty_ledger)"
    by (simp add: empty_ledger_def signed_fill_sum_def)
  ultimately have "fill_history (foldl ledger_step empty_ledger evs)
        = fill_history empty_ledger @ concat (map fills_of evs)
     \<and> net_quantity (foldl ledger_step empty_ledger evs) s
        = signed_fill_sum s (fill_history (foldl ledger_step empty_ledger evs))"
    by (rule foldl_ledger_step_invariant)
  then show ?thesis by (simp add: run_ledger_def empty_ledger_def)
qed

theorem net_quantity_is_signed_fill_sum_witness:
  "net_quantity (run_ledger sample_ledger_events) ''X'' = 5"
  using net_quantity_is_signed_fill_sum [of sample_ledger_events "''X''"]
  by (simp add: sample_ledger_events_def signed_fill_sum_def signed_quantity_def
      buy_fill_def sell_fill_def)

end
